theory Spec2Isabelle
  imports Complex_Main
begin

section \<open>Values: JSON documents as Python sees them\<close>

text \<open>
  A request body is decoded by the framework into Python values: \<open>None\<close>, \<open>bool\<close>,
  \<open>int\<close> (unbounded), \<open>float\<close>, \<open>str\<close>, \<open>list\<close> and \<open>dict\<close>.
  A finite \<open>float\<close> is modelled by the real number it denotes; the three non-finite
  floats that Python's JSON decoder also accepts are kept apart, since \<open>int()\<close> raises
  on them. A \<open>dict\<close> is an association list in insertion order; a lookup takes the
  first entry of a key (a Python dict holds each key once).
\<close>

datatype special = NaN | PosInf | NegInf

datatype json =
    JNull
  | JBool bool
  | JInt int
  | JFloat real
  | JSpecial special
  | JStr string
  | JArr "json list"
  | JObj "(string \<times> json) list"

type_synonym pydict = "(string \<times> json) list"

text \<open>
  Exceptions. \<open>HTTPException status detail\<close> is the only exception the framework turns
  into a response of its own status; every other exception leaves the handler unhandled.
  \<open>JSONDecodeError\<close> is a subclass of \<open>ValueError\<close> in Python.
\<close>

datatype error =
    HTTPException nat string
  | ValueError string
  | JSONDecodeError
  | TypeError
  | AttributeError
  | OverflowError
  | DatabaseError

fun is_ValueError :: "error \<Rightarrow> bool" where
  "is_ValueError (ValueError _) = True"
| "is_ValueError JSONDecodeError = True"
| "is_ValueError _ = False"

text \<open>A client error is an \<open>HTTPException\<close> with a 4xx status.\<close>

fun is_client_error :: "error \<Rightarrow> bool" where
  "is_client_error (HTTPException st _) = (400 \<le> st \<and> st < 500)"
| "is_client_error _ = False"

subsection \<open>Python built-ins used by the handlers\<close>

text \<open>\<open>d.get(k)\<close>: the value, or \<open>None\<close> when the key is absent.\<close>

definition dict_get :: "pydict \<Rightarrow> string \<Rightarrow> json" where
  "dict_get d k = (case map_of d k of None \<Rightarrow> JNull | Some v \<Rightarrow> v)"

text \<open>\<open>d.get(k, dflt)\<close>: a key present with value \<open>None\<close> yields \<open>None\<close>, not the default.\<close>

definition dict_get_default :: "pydict \<Rightarrow> string \<Rightarrow> json \<Rightarrow> json" where
  "dict_get_default d k dflt = (case map_of d k of None \<Rightarrow> dflt | Some v \<Rightarrow> v)"

text \<open>\<open>d.pop(k, None)\<close> on a copy: the value and the dictionary without the key.\<close>

definition dict_pop :: "pydict \<Rightarrow> string \<Rightarrow> json \<times> pydict" where
  "dict_pop d k = (dict_get d k, filter (\<lambda>kv. fst kv \<noteq> k) d)"

text \<open>Truth value of an object, as \<open>if x:\<close> and \<open>x or y\<close> test it.\<close>

fun truthy :: "json \<Rightarrow> bool" where
  "truthy JNull = False"
| "truthy (JBool b) = b"
| "truthy (JInt n) = (n \<noteq> 0)"
| "truthy (JFloat r) = (r \<noteq> 0)"
| "truthy (JSpecial _) = True"
| "truthy (JStr s) = (s \<noteq> [])"
| "truthy (JArr xs) = (xs \<noteq> [])"
| "truthy (JObj kvs) = (kvs \<noteq> [])"

definition py_or :: "json \<Rightarrow> json \<Rightarrow> json" where
  "py_or x y = (if truthy x then x else y)"

text \<open>
  \<open>str.lower()\<close> on the UTF-8 bytes of the string: the ASCII capitals are mapped to
  their small letters and every other byte is kept. Python also maps capitals beyond
  ASCII; none of them becomes one of the letters of \<open>regions\<close>, the only string the
  handlers compare a lowered string with.
\<close>

definition lower_char :: "char \<Rightarrow> char" where
  "lower_char c =
     (let n = (of_char c :: nat) in if 65 \<le> n \<and> n \<le> 90 then char_of (n + 32) else c)"

definition lower :: "string \<Rightarrow> string" where
  "lower s = map lower_char s"

text \<open>\<open>x.lower()\<close> on an arbitrary object: only \<open>str\<close> has the method.\<close>

fun py_lower :: "json \<Rightarrow> error + string" where
  "py_lower (JStr s) = Inr (lower s)"
| "py_lower _ = Inl AttributeError"

text \<open>Truncation toward zero, as \<open>int()\<close> does on a finite float.\<close>

definition trunc :: "real \<Rightarrow> int" where
  "trunc r = (if 0 \<le> r then \<lfloor>r\<rfloor> else \<lceil>r\<rceil>)"

text \<open>
  \<open>int(x)\<close>. The grammar of integer literals that \<open>int(str)\<close> accepts belongs to the
  interpreter and is a parameter: \<open>None\<close> where it raises \<open>ValueError\<close>.
\<close>

fun py_int :: "(string \<Rightarrow> int option) \<Rightarrow> json \<Rightarrow> error + int" where
  "py_int p JNull = Inl TypeError"
| "py_int p (JBool b) = Inr (if b then 1 else 0)"
| "py_int p (JInt n) = Inr n"
| "py_int p (JFloat r) = Inr (trunc r)"
| "py_int p (JSpecial NaN) = Inl (ValueError ''cannot convert float NaN to integer'')"
| "py_int p (JSpecial _) = Inl OverflowError"
| "py_int p (JStr s) =
     (case p s of None \<Rightarrow> Inl (ValueError ''invalid literal for int()'') | Some n \<Rightarrow> Inr n)"
| "py_int p (JArr _) = Inl TypeError"
| "py_int p (JObj _) = Inl TypeError"

text \<open>
  Iteration over an object, as a list comprehension does: a list yields its items, a
  string its characters, a dict its keys; anything else is not iterable.
\<close>

fun py_iter :: "json \<Rightarrow> error + json list" where
  "py_iter (JArr xs) = Inr xs"
| "py_iter (JStr s) = Inr (map (\<lambda>c. JStr [c]) s)"
| "py_iter (JObj kvs) = Inr (map (\<lambda>kv. JStr (fst kv)) kvs)"
| "py_iter _ = Inl TypeError"

section \<open>The geometry adapter (db.py)\<close>

text \<open>
  \<open>rows_to_featurecollection\<close>: the loop over the rows, with the list of features
  built so far as the accumulator.
\<close>

definition feature :: "json \<Rightarrow> pydict \<Rightarrow> json" where
  "feature geom props =
     JObj [(''type'', JStr ''Feature''), (''geometry'', geom), (''properties'', JObj props)]"

fun rows_loop :: "string \<Rightarrow> pydict list \<Rightarrow> json list \<Rightarrow> json list" where
  "rows_loop geom_key [] features = features"
| "rows_loop geom_key (r # rows) features =
     (let (geom, r') = dict_pop r geom_key in
      if geom = JNull then rows_loop geom_key rows features
      else rows_loop geom_key rows (features @ [feature geom r']))"

definition rows_to_featurecollection :: "pydict list \<Rightarrow> string \<Rightarrow> json" where
  "rows_to_featurecollection rows geom_key =
     JObj [(''type'', JStr ''FeatureCollection''),
           (''features'', JArr (rows_loop geom_key rows []))]"

text \<open>
  \<open>one_geom_to_feature\<close>: \<open>properties or {}\<close> replaces a missing or empty mapping
  by the empty one, which for a dict is the dict itself.
\<close>

definition one_geom_to_feature :: "json \<Rightarrow> pydict \<Rightarrow> json" where
  "one_geom_to_feature geom_obj properties = feature geom_obj properties"

text \<open>
  \<open>parse_geojson_geometry\<close>. \<open>json.loads\<close> is the interpreter's decoder and a
  parameter: \<open>None\<close> where it raises \<open>JSONDecodeError\<close>.
\<close>

definition parse_geojson_geometry :: "(string \<Rightarrow> json option) \<Rightarrow> json \<Rightarrow> error + json" where
  "parse_geojson_geometry loads geojson_obj =
     (if geojson_obj = JNull then Inl (ValueError ''geojson is required'')
      else
        case (case geojson_obj of
                JStr s \<Rightarrow> (case loads s of None \<Rightarrow> Inl JSONDecodeError | Some v \<Rightarrow> Inr v)
              | _ \<Rightarrow> Inr geojson_obj) of
          Inl e \<Rightarrow> Inl e
        | Inr obj \<Rightarrow>
            (case obj of
               JObj d \<Rightarrow>
                 if map_of d ''type'' = None
                 then Inl (ValueError ''Invalid GeoJSON: must be a dict with a 'type' field'')
                 else if dict_get d ''type'' = JStr ''Feature''
                 then Inr (dict_get d ''geometry'')
                 else Inr obj
             | _ \<Rightarrow> Inl (ValueError ''Invalid GeoJSON: must be a dict with a 'type' field'')))"

section \<open>The database and the spatial engine\<close>

text \<open>
  A stored row of the features or regions table: the columns the queries select, with
  \<open>JNull\<close> for SQL \<open>NULL\<close>, and the geometry column, \<open>None\<close> for \<open>NULL\<close>.
\<close>

record 'g stored_row =
  col_id :: json
  col_osmid :: json
  col_element_type :: json
  col_name :: json
  col_tags :: json
  col_geom :: "'g option"

text \<open>
  Everything the handlers use and the repository does not define: the interpreter's
  decoders, the configured table names, the contents of the tables, and the functions of
  the spatial engine that the SQL text calls. \<open>'g\<close> is the engine's geometry type.
  Double precision values are modelled by the reals they denote, and the engine's
  division of two of them is a parameter (\<open>float8_div\<close>), so that nothing depends on
  how it rounds. Where a function returns an option, \<open>None\<close> means that the engine
  rejects the query (the driver raises), except for \<open>st_intersection\<close>, where it is the
  SQL \<open>NULL\<close>. \<open>id_any v\<close> is the test \<open>id = ANY(v)\<close> on the id column for the bound
  value \<open>v\<close>. \<open>st_is_empty\<close> is not called by the code; it is the engine's own notion
  of an empty geometry.
\<close>

record 'g env =
  json_loads :: "string \<Rightarrow> json option"
  int_of_str :: "string \<Rightarrow> int option"
  REGIONS_TABLE :: string
  FEATURES_TABLE :: string
  table_rows :: "string \<Rightarrow> 'g stored_row list"
  st_make_point :: "json \<Rightarrow> json \<Rightarrow> 'g option"
  st_geom_from_geojson :: "json \<Rightarrow> 'g option"
  st_set_srid :: "'g \<Rightarrow> int \<Rightarrow> 'g"
  st_as_geojson :: "'g \<Rightarrow> json"
  geometry_type :: "'g \<Rightarrow> string"
  st_covers :: "'g \<Rightarrow> 'g \<Rightarrow> bool"
  st_intersects :: "'g \<Rightarrow> 'g \<Rightarrow> bool"
  sql_double :: "json \<Rightarrow> real option"
  st_distance :: "'g \<Rightarrow> 'g \<Rightarrow> real"
  st_dwithin :: "'g \<Rightarrow> 'g \<Rightarrow> real \<Rightarrow> bool"
  knn_distance :: "'g \<Rightarrow> 'g \<Rightarrow> real"
  st_buffer :: "'g \<Rightarrow> real \<Rightarrow> 'g"
  st_area :: "'g \<Rightarrow> real"
  st_perimeter :: "'g \<Rightarrow> real"
  float8_div :: "real \<Rightarrow> real \<Rightarrow> real"
  id_any :: "json \<Rightarrow> (json \<Rightarrow> bool) option"
  st_union :: "'g list \<Rightarrow> 'g"
  st_intersection :: "'g \<Rightarrow> 'g \<Rightarrow> 'g option"
  st_is_empty :: "'g \<Rightarrow> bool"
  st_transform :: "'g \<Rightarrow> int \<Rightarrow> 'g option"

subsection \<open>Pieces of SQL shared by the queries\<close>

text \<open>\<open>ST_SetSRID(ST_MakePoint(%s, %s), 4326)\<close>\<close>

definition point_4326 :: "'g env \<Rightarrow> json \<Rightarrow> json \<Rightarrow> 'g option" where
  "point_4326 env lon lat = map_option (\<lambda>g. st_set_srid env g 4326) (st_make_point env lon lat)"

text \<open>
  \<open>ST_SetSRID(ST_GeomFromGeoJSON(%s), 4326)\<close> on \<open>json.dumps(geom)\<close>: the text is
  the engine's to read, so the document is handed over as it is.
\<close>

definition geom_4326 :: "'g env \<Rightarrow> json \<Rightarrow> 'g option" where
  "geom_4326 env geom = map_option (\<lambda>g. st_set_srid env g 4326) (st_geom_from_geojson env geom)"

text \<open>\<open>ST_AsGeoJSON(geom)::json\<close>, \<open>NULL\<close> on \<open>NULL\<close>; the driver returns \<open>None\<close> for it.\<close>

definition as_geojson :: "'g env \<Rightarrow> 'g option \<Rightarrow> json" where
  "as_geojson env g = (case g of None \<Rightarrow> JNull | Some x \<Rightarrow> st_as_geojson env x)"

text \<open>\<open>COALESCE(name, '')\<close>\<close>

definition coalesce_name :: "json \<Rightarrow> json" where
  "coalesce_name n = (if n = JNull then JStr [] else n)"

text \<open>
  \<open>LIMIT %s\<close>: the engine rejects a negative count and one beyond \<open>bigint\<close>. Without
  \<open>ORDER BY\<close> the rows come in the order the table yields them.
\<close>

definition sql_limit :: "int \<Rightarrow> 'a list \<Rightarrow> error + 'a list" where
  "sql_limit n rows =
     (if n < 0 \<or> 9223372036854775807 < n then Inl DatabaseError else Inr (take (nat n) rows))"

text \<open>The rows of a table whose geometry is not \<open>NULL\<close>, each with its geometry.\<close>

definition geom_rows :: "'g env \<Rightarrow> string \<Rightarrow> ('g \<times> 'g stored_row) list" where
  "geom_rows env table =
     List.map_filter (\<lambda>r. map_option (\<lambda>g. (g, r)) (col_geom r)) (table_rows env table)"

definition null_rows :: "'g env \<Rightarrow> string \<Rightarrow> 'g stored_row list" where
  "null_rows env table = filter (\<lambda>r. col_geom r = None) (table_rows env table)"

text \<open>The result rows, as the dict cursor returns them.\<close>

definition name_row :: "'g env \<Rightarrow> 'g \<times> 'g stored_row \<Rightarrow> pydict" where
  "name_row env gr =
     [(''id'', col_id (snd gr)), (''name'', coalesce_name (col_name (snd gr))),
      (''geom_geojson'', st_as_geojson env (fst gr))]"

definition tags_row :: "'g env \<Rightarrow> 'g \<times> 'g stored_row \<Rightarrow> pydict" where
  "tags_row env gr =
     [(''id'', col_id (snd gr)), (''osmid'', col_osmid (snd gr)),
      (''element_type'', col_element_type (snd gr)), (''name'', col_name (snd gr)),
      (''tags'', col_tags (snd gr)), (''geom_geojson'', st_as_geojson env (fst gr))]"

definition dist_row :: "'g env \<Rightarrow> 'g \<Rightarrow> 'g \<times> 'g stored_row \<Rightarrow> pydict" where
  "dist_row env pt gr =
     [(''id'', col_id (snd gr)), (''osmid'', col_osmid (snd gr)),
      (''element_type'', col_element_type (snd gr)), (''name'', col_name (snd gr)),
      (''tags'', col_tags (snd gr)), (''dist_m'', JFloat (st_distance env (fst gr) pt)),
      (''geom_geojson'', st_as_geojson env (fst gr))]"

text \<open>A row of the KNN query whose geometry is \<open>NULL\<close>: distance and GeoJSON are \<open>NULL\<close>.\<close>

definition dist_row_null :: "'g stored_row \<Rightarrow> pydict" where
  "dist_row_null r =
     [(''id'', col_id r), (''osmid'', col_osmid r),
      (''element_type'', col_element_type r), (''name'', col_name r),
      (''tags'', col_tags r), (''dist_m'', JNull), (''geom_geojson'', JNull)]"

subsection \<open>The queries, one per SQL text of main.py\<close>

definition pip_query :: "'g env \<Rightarrow> string \<Rightarrow> json \<Rightarrow> json \<Rightarrow> int \<Rightarrow> error + pydict list" where
  "pip_query env table lon lat limit =
     (case point_4326 env lon lat of
        None \<Rightarrow> Inl DatabaseError
      | Some pt \<Rightarrow>
          sql_limit limit
            (map (name_row env)
               (filter (\<lambda>gr. geometry_type env (fst gr) \<in> {''POLYGON'', ''MULTIPOLYGON''}
                             \<and> st_covers env (fst gr) pt)
                  (geom_rows env table))))"


text \<open>\<open>ORDER BY dist_m\<close>: ascending; how the engine orders equal distances is its own.\<close>

definition within_distance_query ::
    "'g env \<Rightarrow> json \<Rightarrow> json \<Rightarrow> json \<Rightarrow> int \<Rightarrow> error + pydict list" where
  "within_distance_query env lon lat radius_m limit =
     (case point_4326 env lon lat of
        None \<Rightarrow> Inl DatabaseError
      | Some pt \<Rightarrow>
          (case sql_double env radius_m of
             None \<Rightarrow> Inl DatabaseError
           | Some rad \<Rightarrow>
               sql_limit limit
                 (map (dist_row env pt)
                    (sort_key (\<lambda>gr. st_distance env (fst gr) pt)
                       (filter (\<lambda>gr. st_dwithin env (fst gr) pt rad)
                          (geom_rows env (FEATURES_TABLE env)))))))"

definition buffer_query :: "'g env \<Rightarrow> json \<Rightarrow> json \<Rightarrow> json \<Rightarrow> error + json" where
  "buffer_query env lon lat buffer_m =
     (case point_4326 env lon lat of
        None \<Rightarrow> Inl DatabaseError
      | Some pt \<Rightarrow>
          (case sql_double env buffer_m of
             None \<Rightarrow> Inl DatabaseError
           | Some rad \<Rightarrow> Inr (st_as_geojson env (st_buffer env pt rad))))"

definition hits_query :: "'g env \<Rightarrow> json \<Rightarrow> json \<Rightarrow> json \<Rightarrow> int \<Rightarrow> error + pydict list" where
  "hits_query env lon lat buffer_m limit =
     (case point_4326 env lon lat of
        None \<Rightarrow> Inl DatabaseError
      | Some pt \<Rightarrow>
          (case sql_double env buffer_m of
             None \<Rightarrow> Inl DatabaseError
           | Some rad \<Rightarrow>
               sql_limit limit
                 (map (tags_row env)
                    (filter (\<lambda>gr. st_intersects env (fst gr) (st_buffer env pt rad))
                       (geom_rows env (FEATURES_TABLE env))))))"

text \<open>The two columns of the area query: the area, and the area divided by \<open>1e6\<close>.\<close>

definition area_query :: "'g env \<Rightarrow> json \<Rightarrow> error + real \<times> real" where
  "area_query env geom =
     (case geom_4326 env geom of
        None \<Rightarrow> Inl DatabaseError
      | Some g \<Rightarrow> Inr (st_area env g, float8_div env (st_area env g) 1000000))"

definition perimeter_query :: "'g env \<Rightarrow> json \<Rightarrow> error + real \<times> real" where
  "perimeter_query env geom =
     (case geom_4326 env geom of
        None \<Rightarrow> Inl DatabaseError
      | Some g \<Rightarrow> Inr (st_perimeter env g, float8_div env (st_perimeter env g) 1000))"

text \<open>
  \<open>ORDER BY geom <-> p.pt\<close>: ascending in the engine's proximity operator, rows with a
  \<open>NULL\<close> geometry last; there is no \<open>WHERE\<close>.
\<close>

definition knn_query :: "'g env \<Rightarrow> json \<Rightarrow> json \<Rightarrow> int \<Rightarrow> error + pydict list" where
  "knn_query env lon lat k =
     (case point_4326 env lon lat of
        None \<Rightarrow> Inl DatabaseError
      | Some pt \<Rightarrow>
          sql_limit k
            (map (dist_row env pt)
               (sort_key (\<lambda>gr. knn_distance env (fst gr) pt)
                  (geom_rows env (FEATURES_TABLE env)))
             @ map dist_row_null (null_rows env (FEATURES_TABLE env))))"

text \<open>
  \<open>ST_Union(geom)\<close> over the selected rows: an aggregate skips \<open>NULL\<close> and is
  \<open>NULL\<close> when nothing is left.
\<close>

definition union_regions_query :: "'g env \<Rightarrow> json \<Rightarrow> error + json" where
  "union_regions_query env region_ids =
     (case id_any env region_ids of
        None \<Rightarrow> Inl DatabaseError
      | Some matches \<Rightarrow>
          (case map fst (filter (\<lambda>gr. matches (col_id (snd gr)))
                           (geom_rows env (REGIONS_TABLE env))) of
             [] \<Rightarrow> Inr JNull
           | g # gs \<Rightarrow> Inr (st_as_geojson env (st_union env (g # gs)))))"

fun geoms_4326 :: "'g env \<Rightarrow> json list \<Rightarrow> 'g list option" where
  "geoms_4326 env [] = Some []"
| "geoms_4326 env (x # xs) =
     (case geom_4326 env x of
        None \<Rightarrow> None
      | Some g \<Rightarrow> (case geoms_4326 env xs of None \<Rightarrow> None | Some gs \<Rightarrow> Some (g # gs)))"

definition union_geoms_query :: "'g env \<Rightarrow> json list \<Rightarrow> error + json" where
  "union_geoms_query env geom_list =
     (case geoms_4326 env geom_list of
        None \<Rightarrow> Inl DatabaseError
      | Some gs \<Rightarrow> Inr (st_as_geojson env (st_union env gs)))"

text \<open>The two columns of the intersection query; both are \<open>NULL\<close> when the intersection is.\<close>

definition intersection_query :: "'g env \<Rightarrow> json \<Rightarrow> json \<Rightarrow> error + json \<times> real option" where
  "intersection_query env ga gb =
     (case geom_4326 env ga of
        None \<Rightarrow> Inl DatabaseError
      | Some a \<Rightarrow>
          (case geom_4326 env gb of
             None \<Rightarrow> Inl DatabaseError
           | Some b \<Rightarrow>
               Inr (as_geojson env (st_intersection env a b),
                    map_option (st_area env) (st_intersection env a b))))"

definition transform_query :: "'g env \<Rightarrow> json \<Rightarrow> int \<Rightarrow> error + json \<times> json" where
  "transform_query env geom to_epsg =
     (case geom_4326 env geom of
        None \<Rightarrow> Inl DatabaseError
      | Some g \<Rightarrow>
          (case st_transform env g to_epsg of
             None \<Rightarrow> Inl DatabaseError
           | Some t \<Rightarrow> Inr (st_as_geojson env g, st_as_geojson env t)))"

section \<open>The query dispatcher (main.py)\<close>

text \<open>
  Each handler takes the decoded request body and returns the response, or the exception
  it raises. The statements run in the order of the source, so that the first one to
  raise decides the result.
\<close>

text \<open>\<open>(payload.get("source") or "features").lower()\<close>\<close>

definition source_of :: "pydict \<Rightarrow> error + string" where
  "source_of payload = py_lower (py_or (dict_get payload ''source'') (JStr ''features''))"

text \<open>\<open>REGIONS_TABLE if source == "regions" else FEATURES_TABLE\<close>\<close>

definition table_of :: "'g env \<Rightarrow> string \<Rightarrow> string" where
  "table_of env source = (if source = ''regions'' then REGIONS_TABLE env else FEATURES_TABLE env)"

definition point_in_polygon :: "'g env \<Rightarrow> pydict \<Rightarrow> error + json" where
  "point_in_polygon env payload =
     (let lon = dict_get payload ''lon'';
          lat = dict_get payload ''lat''
      in case source_of payload of
           Inl e \<Rightarrow> Inl e
         | Inr source \<Rightarrow>
             (case py_int (int_of_str env) (dict_get_default payload ''limit'' (JInt 200)) of
                Inl e \<Rightarrow> Inl e
              | Inr limit \<Rightarrow>
                  if lon = JNull \<or> lat = JNull then Inl (HTTPException 400 ''lon/lat required'')
                  else
                    (case pip_query env (table_of env source) lon lat limit of
                       Inl e \<Rightarrow> Inl e
                     | Inr rows \<Rightarrow> Inr (rows_to_featurecollection rows ''geom_geojson''))))"


definition within_distance :: "'g env \<Rightarrow> pydict \<Rightarrow> error + json" where
  "within_distance env payload =
     (let lon = dict_get payload ''lon'';
          lat = dict_get payload ''lat'';
          radius_m = dict_get payload ''radius_m''
      in case py_int (int_of_str env) (dict_get_default payload ''limit'' (JInt 500)) of
           Inl e \<Rightarrow> Inl e
         | Inr limit \<Rightarrow>
             if lon = JNull \<or> lat = JNull \<or> radius_m = JNull
             then Inl (HTTPException 400 ''lon/lat/radius_m required'')
             else
               (case within_distance_query env lon lat radius_m limit of
                  Inl e \<Rightarrow> Inl e
                | Inr rows \<Rightarrow> Inr (rows_to_featurecollection rows ''geom_geojson'')))"

definition buffer_analysis :: "'g env \<Rightarrow> pydict \<Rightarrow> error + json" where
  "buffer_analysis env payload =
     (let lon = dict_get payload ''lon'';
          lat = dict_get payload ''lat'';
          buffer_m = dict_get payload ''buffer_m''
      in case py_int (int_of_str env) (dict_get_default payload ''limit'' (JInt 1000)) of
           Inl e \<Rightarrow> Inl e
         | Inr limit \<Rightarrow>
             if lon = JNull \<or> lat = JNull \<or> buffer_m = JNull
             then Inl (HTTPException 400 ''lon/lat/buffer_m required'')
             else
               (case buffer_query env lon lat buffer_m of
                  Inl e \<Rightarrow> Inl e
                | Inr buf_geom \<Rightarrow>
                    (case hits_query env lon lat buffer_m limit of
                       Inl e \<Rightarrow> Inl e
                     | Inr rows \<Rightarrow>
                         Inr (JObj
                           [(''buffer'', one_geom_to_feature buf_geom [(''buffer_m'', buffer_m)]),
                            (''hits'', rows_to_featurecollection rows ''geom_geojson'')]))))"

text \<open>\<open>float(x)\<close> on a double precision column is the value itself.\<close>

definition polygon_area :: "'g env \<Rightarrow> pydict \<Rightarrow> error + json" where
  "polygon_area env payload =
     (case parse_geojson_geometry (json_loads env) (dict_get payload ''geojson'') of
        Inl e \<Rightarrow> Inl e
      | Inr geom \<Rightarrow>
          (case area_query env geom of
             Inl e \<Rightarrow> Inl e
           | Inr (area_m2, area_km2) \<Rightarrow>
               Inr (JObj [(''area_m2'', JFloat area_m2), (''area_km2'', JFloat area_km2)])))"

definition polygon_perimeter :: "'g env \<Rightarrow> pydict \<Rightarrow> error + json" where
  "polygon_perimeter env payload =
     (case parse_geojson_geometry (json_loads env) (dict_get payload ''geojson'') of
        Inl e \<Rightarrow> Inl e
      | Inr geom \<Rightarrow>
          (case perimeter_query env geom of
             Inl e \<Rightarrow> Inl e
           | Inr (perim_m, perim_km) \<Rightarrow>
               Inr (JObj [(''perimeter_m'', JFloat perim_m),
                          (''perimeter_km'', JFloat perim_km)])))"

definition knn :: "'g env \<Rightarrow> pydict \<Rightarrow> error + json" where
  "knn env payload =
     (let lon = dict_get payload ''lon'';
          lat = dict_get payload ''lat''
      in case py_int (int_of_str env) (dict_get_default payload ''k'' (JInt 10)) of
           Inl e \<Rightarrow> Inl e
         | Inr k \<Rightarrow>
             if lon = JNull \<or> lat = JNull then Inl (HTTPException 400 ''lon/lat required'')
             else
               (case knn_query env lon lat k of
                  Inl e \<Rightarrow> Inl e
                | Inr rows \<Rightarrow> Inr (rows_to_featurecollection rows ''geom_geojson'')))"

text \<open>\<open>[parse_geojson_geometry(g) for g in geoms]\<close>: the first failure ends the loop.\<close>

fun parse_all :: "(string \<Rightarrow> json option) \<Rightarrow> json list \<Rightarrow> error + json list" where
  "parse_all loads [] = Inr []"
| "parse_all loads (g # gs) =
     (case parse_geojson_geometry loads g of
        Inl e \<Rightarrow> Inl e
      | Inr x \<Rightarrow> (case parse_all loads gs of Inl e \<Rightarrow> Inl e | Inr xs \<Rightarrow> Inr (x # xs)))"

definition union_polygons :: "'g env \<Rightarrow> pydict \<Rightarrow> error + json" where
  "union_polygons env payload =
     (let region_ids = dict_get payload ''region_ids'';
          geoms = dict_get payload ''geoms''
      in if truthy region_ids then
           (case union_regions_query env region_ids of
              Inl e \<Rightarrow> Inl e
            | Inr row0 \<Rightarrow>
                if row0 = JNull
                then Inl (HTTPException 404 ''No geometries found for given region_ids'')
                else Inr (one_geom_to_feature row0
                            [(''source'', JStr ''regions''), (''region_ids'', region_ids)]))
         else if truthy geoms then
           (case py_iter geoms of
              Inl e \<Rightarrow> Inl e
            | Inr items \<Rightarrow>
                (case parse_all (json_loads env) items of
                   Inl e \<Rightarrow> Inl e
                 | Inr geom_list \<Rightarrow>
                     (case union_geoms_query env geom_list of
                        Inl e \<Rightarrow> Inl e
                      | Inr row0 \<Rightarrow>
                          Inr (one_geom_to_feature row0
                                 [(''source'', JStr ''geoms''),
                                  (''count'', JInt (int (length geom_list)))]))))
         else Inl (HTTPException 400 ''Provide region_ids or geoms''))"

text \<open>
  \<open>float(area_m2)\<close> raises \<open>TypeError\<close> on \<open>None\<close>; the query yields a \<open>NULL\<close> area
  only together with a \<open>NULL\<close> geometry, which returns before.
\<close>

definition intersection :: "'g env \<Rightarrow> pydict \<Rightarrow> error + json" where
  "intersection env payload =
     (let a = dict_get payload ''a'';
          b = dict_get payload ''b''
      in if a = JNull \<or> b = JNull
         then Inl (HTTPException 400 ''Provide a and b (GeoJSON geometry or Feature)'')
         else
           (case parse_geojson_geometry (json_loads env) a of
              Inl e \<Rightarrow> Inl e
            | Inr ga \<Rightarrow>
                (case parse_geojson_geometry (json_loads env) b of
                   Inl e \<Rightarrow> Inl e
                 | Inr gb \<Rightarrow>
                     (case intersection_query env ga gb of
                        Inl e \<Rightarrow> Inl e
                      | Inr (geom_geojson, area_m2) \<Rightarrow>
                          if geom_geojson = JNull
                          then Inr (feature JNull [(''area_m2'', JFloat 0)])
                          else
                            (case area_m2 of
                               None \<Rightarrow> Inl TypeError
                             | Some ar \<Rightarrow>
                                 Inr (one_geom_to_feature geom_geojson
                                        [(''area_m2'', JFloat ar)]))))))"

definition transform :: "'g env \<Rightarrow> pydict \<Rightarrow> error + json" where
  "transform env payload =
     (let geojson = dict_get payload ''geojson''
      in case py_int (int_of_str env) (dict_get_default payload ''to_epsg'' (JInt 3857)) of
           Inl e \<Rightarrow> Inl e
         | Inr to_epsg \<Rightarrow>
             (case parse_geojson_geometry (json_loads env) geojson of
                Inl e \<Rightarrow> Inl e
              | Inr geom \<Rightarrow>
                  (case transform_query env geom to_epsg of
                     Inl e \<Rightarrow> Inl e
                   | Inr (geom_wgs84, geom_transformed) \<Rightarrow>
                       Inr (one_geom_to_feature geom_wgs84
                              [(''to_epsg'', JInt to_epsg),
                               (''geom_transformed'', geom_transformed)]))))"

section \<open>A small engine to run the handlers on\<close>

text \<open>
  An instance of the environment on which the handlers can be evaluated. A geometry is a
  list of grid points, with coordinates in thousandths of a degree; its GeoJSON form is a
  \<open>MultiPoint\<close>. As in a spatial engine at latitude sixty, the proximity operator
  measures in degrees, while the reported distance is in metres, where a step east is
  about half as long as a step north. The intersection of two geometries without a common
  point is the empty geometry, not \<open>NULL\<close>.
\<close>

type_synonym grid = "(int \<times> int) list"

fun grid_coords :: "json list \<Rightarrow> grid option" where
  "grid_coords [] = Some []"
| "grid_coords (JArr [JInt x, JInt y] # cs) =
     (case grid_coords cs of None \<Rightarrow> None | Some ps \<Rightarrow> Some ((x, y) # ps))"
| "grid_coords (_ # cs) = None"

definition grid_from_geojson :: "json \<Rightarrow> grid option" where
  "grid_from_geojson j =
     (case j of
        JObj d \<Rightarrow>
          if dict_get d ''type'' = JStr ''MultiPoint''
          then (case dict_get d ''coordinates'' of JArr cs \<Rightarrow> grid_coords cs | _ \<Rightarrow> None)
          else None
      | _ \<Rightarrow> None)"

definition grid_as_geojson :: "grid \<Rightarrow> json" where
  "grid_as_geojson g =
     JObj [(''type'', JStr ''MultiPoint''),
           (''coordinates'', JArr (map (\<lambda>p. JArr [JInt (fst p), JInt (snd p)]) g))]"

definition grid_make_point :: "json \<Rightarrow> json \<Rightarrow> grid option" where
  "grid_make_point lon lat =
     (case (lon, lat) of (JInt x, JInt y) \<Rightarrow> Some [(x, y)] | _ \<Rightarrow> None)"

fun grid_degrees :: "grid \<Rightarrow> grid \<Rightarrow> real" where
  "grid_degrees ((x, y) # _) ((px, py) # _) = real_of_int (\<bar>x - px\<bar> + \<bar>y - py\<bar>) / 1000"
| "grid_degrees _ _ = 0"

fun grid_metres :: "grid \<Rightarrow> grid \<Rightarrow> real" where
  "grid_metres ((x, y) # _) ((px, py) # _) = real_of_int (56 * \<bar>x - px\<bar> + 111 * \<bar>y - py\<bar>)"
| "grid_metres _ _ = 0"

definition grid_double :: "json \<Rightarrow> real option" where
  "grid_double j = (case j of JInt n \<Rightarrow> Some (real_of_int n) | JFloat r \<Rightarrow> Some r | _ \<Rightarrow> None)"

definition grid_id_any :: "json \<Rightarrow> (json \<Rightarrow> bool) option" where
  "grid_id_any j = (case j of JArr ids \<Rightarrow> Some (\<lambda>i. i \<in> set ids) | _ \<Rightarrow> None)"

definition grid_transform :: "grid \<Rightarrow> int \<Rightarrow> grid option" where
  "grid_transform g srid =
     (if srid = 4326 then Some g
      else if srid = 3857 then Some (map (\<lambda>p. (111 * fst p, 222 * snd p)) g)
      else None)"

definition grid_row :: "int \<Rightarrow> string \<Rightarrow> grid option \<Rightarrow> grid stored_row" where
  "grid_row i n g =
     \<lparr>col_id = JInt i, col_osmid = JInt (1000 + i), col_element_type = JStr ''node'',
      col_name = JStr n, col_tags = JNull, col_geom = g\<rparr>"

definition grid_tables :: "string \<Rightarrow> grid stored_row list" where
  "grid_tables t =
     (if t = ''osm_spb_features''
      then [grid_row 1 ''east'' (Some [(10, 0)]), grid_row 2 ''north'' (Some [(0, 9)])]
      else if t = ''regions''
      then [grid_row 7 ''centre'' (Some [(0, 0), (1, 0)]), grid_row 8 ''void'' None]
      else [])"

definition grid_env :: "grid env" where
  "grid_env =
     \<lparr>json_loads = (\<lambda>s. None),
      int_of_str = (\<lambda>s. None),
      REGIONS_TABLE = ''regions'',
      FEATURES_TABLE = ''osm_spb_features'',
      table_rows = grid_tables,
      st_make_point = grid_make_point,
      st_geom_from_geojson = grid_from_geojson,
      st_set_srid = (\<lambda>g srid. g),
      st_as_geojson = grid_as_geojson,
      geometry_type = (\<lambda>g. ''MULTIPOLYGON''),
      st_covers = (\<lambda>g pt. list_all (\<lambda>p. p \<in> set g) pt),
      st_intersects = (\<lambda>a b. list_ex (\<lambda>p. p \<in> set b) a),
      sql_double = grid_double,
      st_distance = grid_metres,
      st_dwithin = (\<lambda>g pt r. grid_metres g pt \<le> r),
      knn_distance = grid_degrees,
      st_buffer = (\<lambda>pt r. pt),
      st_area = (\<lambda>g. 1000000 * real (length g)),
      st_perimeter = (\<lambda>g. 4000 * real (length g)),
      float8_div = (\<lambda>x y. x / y),
      id_any = grid_id_any,
      st_union = (\<lambda>gs. remdups (concat gs)),
      st_intersection = (\<lambda>a b. Some (filter (\<lambda>p. p \<in> set b) a)),
      st_is_empty = (\<lambda>g. g = []),
      st_transform = grid_transform\<rparr>"

text \<open>The GeoJSON of a list of grid points, as a client sends it.\<close>

definition multipoint :: "grid \<Rightarrow> json" where
  "multipoint g = grid_as_geojson g"

text \<open>
  The same engine with a reference system attached to every geometry. A geometry read
  from GeoJSON or made from coordinates has none (0) until \<open>ST_SetSRID\<close> gives it one;
  \<open>ST_Transform\<close> rejects a geometry whose system is not 4326, and \<open>ST_AsGeoJSON\<close>
  adds a \<open>crs\<close> member to a geometry in any other system than 4326.
\<close>

type_synonym tagged = "int \<times> grid"

definition tagged_as_geojson :: "tagged \<Rightarrow> json" where
  "tagged_as_geojson g =
     JObj ((''type'', JStr ''MultiPoint'')
           # (if fst g = 4326 then [] else [(''crs'', JInt (fst g))])
           @ [(''coordinates'', JArr (map (\<lambda>p. JArr [JInt (fst p), JInt (snd p)]) (snd g)))])"

definition tagged_transform :: "tagged \<Rightarrow> int \<Rightarrow> tagged option" where
  "tagged_transform g srid =
     (if fst g = 4326 then map_option (Pair srid) (grid_transform (snd g) srid) else None)"

definition tagged_env :: "tagged env" where
  "tagged_env =
     \<lparr>json_loads = (\<lambda>s. None),
      int_of_str = (\<lambda>s. None),
      REGIONS_TABLE = ''regions'',
      FEATURES_TABLE = ''osm_spb_features'',
      table_rows = (\<lambda>t. []),
      st_make_point = (\<lambda>lon lat. map_option (Pair 0) (grid_make_point lon lat)),
      st_geom_from_geojson = (\<lambda>j. map_option (Pair 0) (grid_from_geojson j)),
      st_set_srid = (\<lambda>g srid. (srid, snd g)),
      st_as_geojson = tagged_as_geojson,
      geometry_type = (\<lambda>g. ''MULTIPOLYGON''),
      st_covers = (\<lambda>g pt. list_all (\<lambda>p. p \<in> set (snd g)) (snd pt)),
      st_intersects = (\<lambda>a b. list_ex (\<lambda>p. p \<in> set (snd b)) (snd a)),
      sql_double = grid_double,
      st_distance = (\<lambda>g pt. grid_metres (snd g) (snd pt)),
      st_dwithin = (\<lambda>g pt r. grid_metres (snd g) (snd pt) \<le> r),
      knn_distance = (\<lambda>g pt. grid_degrees (snd g) (snd pt)),
      st_buffer = (\<lambda>pt r. pt),
      st_area = (\<lambda>g. 1000000 * real (length (snd g))),
      st_perimeter = (\<lambda>g. 4000 * real (length (snd g))),
      float8_div = (\<lambda>x y. x / y),
      id_any = grid_id_any,
      st_union = (\<lambda>gs. (4326, remdups (concat (map snd gs)))),
      st_intersection = (\<lambda>a b. Some (fst a, filter (\<lambda>p. p \<in> set (snd b)) (snd a))),
      st_is_empty = (\<lambda>g. snd g = []),
      st_transform = tagged_transform\<rparr>"

section \<open>Notions of the specification\<close>

text \<open>A field of a response object.\<close>

definition field :: "json \<Rightarrow> string \<Rightarrow> json" where
  "field j k = (case j of JObj d \<Rightarrow> dict_get d k | _ \<Rightarrow> JNull)"

text \<open>The features of a feature collection.\<close>

definition features_of :: "json \<Rightarrow> json list" where
  "features_of fc = (case field fc ''features'' of JArr fs \<Rightarrow> fs | _ \<Rightarrow> [])"

text \<open>The distance a feature reports in its properties.\<close>

definition reported_dist :: "json \<Rightarrow> real option" where
  "reported_dist f =
     (case field (field f ''properties'') ''dist_m'' of JFloat d \<Rightarrow> Some d | _ \<Rightarrow> None)"

text \<open>The input of the adapter after decoding: a string is decoded, anything else is kept.\<close>

definition decoded :: "(string \<Rightarrow> json option) \<Rightarrow> json \<Rightarrow> json option" where
  "decoded loads x = (case x of JStr s \<Rightarrow> loads s | _ \<Rightarrow> Some x)"

definition mapping_with_type :: "json \<Rightarrow> bool" where
  "mapping_with_type obj = (case obj of JObj d \<Rightarrow> map_of d ''type'' \<noteq> None | _ \<Rightarrow> False)"

text \<open>
  The inputs the specification has the adapter reject: absent, not a mapping after
  decoding (a string that does not decode is none), or a mapping without \<open>type\<close>.
\<close>

definition invalid_geometry_input :: "(string \<Rightarrow> json option) \<Rightarrow> json \<Rightarrow> bool" where
  "invalid_geometry_input loads x =
     (x = JNull \<or> (case decoded loads x of None \<Rightarrow> True | Some obj \<Rightarrow> \<not> mapping_with_type obj))"

text \<open>The geometry of a decoded input: the embedded one of a Feature, else the object.\<close>

definition geometry_of :: "json \<Rightarrow> json" where
  "geometry_of obj =
     (case obj of
        JObj d \<Rightarrow> if dict_get d ''type'' = JStr ''Feature'' then dict_get d ''geometry'' else obj
      | _ \<Rightarrow> obj)"

text \<open>A row has a geometry when the column is present and not null.\<close>

definition has_geometry :: "string \<Rightarrow> pydict \<Rightarrow> bool" where
  "has_geometry k r = (case map_of r k of None \<Rightarrow> False | Some v \<Rightarrow> v \<noteq> JNull)"

definition other_columns :: "string \<Rightarrow> pydict \<Rightarrow> pydict" where
  "other_columns k r = filter (\<lambda>kv. fst kv \<noteq> k) r"

definition the_geometry :: "string \<Rightarrow> pydict \<Rightarrow> json" where
  "the_geometry k r = (case map_of r k of None \<Rightarrow> JNull | Some v \<Rightarrow> v)"

text \<open>
  The feature of a row of the within-distance and KNN queries: its GeoJSON, and every
  other column, the reported distance among them, as its properties.
\<close>

definition dist_feature :: "'g env \<Rightarrow> 'g \<Rightarrow> 'g \<times> 'g stored_row \<Rightarrow> json" where
  "dist_feature env pt gr =
     feature (st_as_geojson env (fst gr))
       [(''id'', col_id (snd gr)), (''osmid'', col_osmid (snd gr)),
        (''element_type'', col_element_type (snd gr)), (''name'', col_name (snd gr)),
        (''tags'', col_tags (snd gr)), (''dist_m'', JFloat (st_distance env (fst gr) pt))]"



section \<open>Facts shared by the proofs\<close>

lemma rows_loop_acc:
  "rows_loop k rows acc =
     acc @ map (\<lambda>r. feature (dict_get r k) (filter (\<lambda>kv. fst kv \<noteq> k) r))
             (filter (\<lambda>r. dict_get r k \<noteq> JNull) rows)"
  by (induction rows arbitrary: acc) (simp_all add: dict_pop_def)

lemma features_of_collection:
  "features_of (rows_to_featurecollection rows k) =
     map (\<lambda>r. feature (dict_get r k) (filter (\<lambda>kv. fst kv \<noteq> k) r))
       (filter (\<lambda>r. dict_get r k \<noteq> JNull) rows)"
  by (simp add: features_of_def field_def rows_to_featurecollection_def dict_get_def rows_loop_acc)

lemmas grid_defs = grid_env_def grid_tables_def grid_row_def grid_make_point_def
  grid_as_geojson_def grid_from_geojson_def grid_double_def grid_id_any_def grid_transform_def
  multipoint_def

lemmas get_defs = dict_get_def dict_get_default_def

lemmas eval_defs = point_4326_def sql_limit_def geom_rows_def null_rows_def
  List.map_filter_simps dist_row_def rows_to_featurecollection_def dict_pop_def feature_def
  features_of_def field_def reported_dist_def Let_def

lemma grid_parse:
  "parse_geojson_geometry (json_loads grid_env) (multipoint g) = Inr (multipoint g)"
  by (simp add: parse_geojson_geometry_def grid_defs get_defs)

lemma py_int_error: "py_int p v = Inl e \<Longrightarrow> \<not> is_client_error e"
  by (cases "(p, v)" rule: py_int.cases) (auto split: option.splits)


lemma lower_features: "lower ''features'' = ''features''"
  by (simp add: lower_def lower_char_def)



lemma within_rows_sorted:
  "sorted (map (\<lambda>gr. st_distance env (fst gr) pt)
     (filter P (take n (sort_key (\<lambda>gr. st_distance env (fst gr) pt) xs))))"
proof -
  have "sorted (map (\<lambda>gr. st_distance env (fst gr) pt)
                  (sort_key (\<lambda>gr. st_distance env (fst gr) pt) xs))"
    by (rule sorted_sort_key)
  then have "sorted (map (\<lambda>gr. st_distance env (fst gr) pt)
                  (take n (sort_key (\<lambda>gr. st_distance env (fst gr) pt) xs)))"
    unfolding take_map [symmetric] by (rule sorted_wrt_take)
  then show ?thesis
    by (rule sorted_filter)
qed

lemma geojson_dist_row: "dict_get (dist_row env pt gr) ''geom_geojson'' = st_as_geojson env (fst gr)"
  by (simp add: dist_row_def get_defs)

lemma geojson_dist_row_null: "dict_get (dist_row_null r) ''geom_geojson'' = JNull"
  by (simp add: dist_row_null_def get_defs)

lemma props_dist_row:
  "feature (st_as_geojson env (fst gr))
     (filter (\<lambda>kv. fst kv \<noteq> ''geom_geojson'') (dist_row env pt gr)) = dist_feature env pt gr"
  by (simp add: dist_feature_def dist_row_def)

lemma features_within:
  "features_of (rows_to_featurecollection (take n (map (dist_row env pt) xs)) ''geom_geojson'')
     = map (dist_feature env pt) (filter (\<lambda>gr. st_as_geojson env (fst gr) \<noteq> JNull) (take n xs))"
  by (simp add: features_of_collection take_map filter_map comp_def geojson_dist_row props_dist_row)

lemma features_knn:
  "features_of (rows_to_featurecollection
      (take n (map (dist_row env pt) xs @ map dist_row_null ys)) ''geom_geojson'')
     = map (dist_feature env pt) (filter (\<lambda>gr. st_as_geojson env (fst gr) \<noteq> JNull) (take n xs))"
  by (simp add: features_of_collection take_map filter_map comp_def geojson_dist_row props_dist_row
       geojson_dist_row_null)

lemma reported_dist_feature: "reported_dist (dist_feature env pt gr) = Some (st_distance env (fst gr) pt)"
  by (simp add: reported_dist_def field_def feature_def dist_feature_def get_defs)

lemma trunc_toward_zero:
  "\<bar>real_of_int (trunc r)\<bar> \<le> \<bar>r\<bar> \<and> \<bar>r - real_of_int (trunc r)\<bar> < 1"
  unfolding trunc_def by (auto; linarith)

lemma limit_float:
  "py_int p (dict_get_default ((k, JFloat r) # payload) k d)
     = py_int p (dict_get_default ((k, JInt (trunc r)) # payload) k d)"
  by (simp add: dict_get_default_def)

lemma other_key:
  "k' \<noteq> k \<Longrightarrow> dict_get ((k, v) # payload) k' = dict_get payload k'"
  by (simp add: dict_get_def)

lemma source_other_key:
  "k \<noteq> ''source'' \<Longrightarrow> source_of ((k, v) # payload) = source_of payload"
  by (simp add: source_of_def dict_get_def)

lemmas tagged_defs = tagged_env_def tagged_as_geojson_def tagged_transform_def

















section \<open>Missing parameters\<close>

text \<open>
  C1 (as amended). Where the optional values coerce without error, a body that lacks a
  required field of point-in-polygon, within-distance, buffer or KNN fails with the
  \<open>HTTPException\<close> of status 400 whose detail names the required fields; so does an
  intersection without \<open>a\<close> or \<open>b\<close>, and a union with neither a non-empty
  \<open>region_ids\<close> nor a non-empty \<open>geoms\<close>. Status 400 is a client error.
\<close>

theorem missing_field_client_error:
  "(source_of payload = Inr s
      \<and> py_int (int_of_str env) (dict_get_default payload ''limit'' (JInt 200)) = Inr n
      \<and> (dict_get payload ''lon'' = JNull \<or> dict_get payload ''lat'' = JNull)
      \<longrightarrow> point_in_polygon env payload = Inl (HTTPException 400 ''lon/lat required''))
   \<and> (py_int (int_of_str env) (dict_get_default payload ''limit'' (JInt 500)) = Inr n
      \<and> (dict_get payload ''lon'' = JNull \<or> dict_get payload ''lat'' = JNull
           \<or> dict_get payload ''radius_m'' = JNull)
      \<longrightarrow> within_distance env payload = Inl (HTTPException 400 ''lon/lat/radius_m required''))
   \<and> (py_int (int_of_str env) (dict_get_default payload ''limit'' (JInt 1000)) = Inr n
      \<and> (dict_get payload ''lon'' = JNull \<or> dict_get payload ''lat'' = JNull
           \<or> dict_get payload ''buffer_m'' = JNull)
      \<longrightarrow> buffer_analysis env payload = Inl (HTTPException 400 ''lon/lat/buffer_m required''))
   \<and> (py_int (int_of_str env) (dict_get_default payload ''k'' (JInt 10)) = Inr n
      \<and> (dict_get payload ''lon'' = JNull \<or> dict_get payload ''lat'' = JNull)
      \<longrightarrow> knn env payload = Inl (HTTPException 400 ''lon/lat required''))
   \<and> (dict_get payload ''a'' = JNull \<or> dict_get payload ''b'' = JNull
      \<longrightarrow> intersection env payload
            = Inl (HTTPException 400 ''Provide a and b (GeoJSON geometry or Feature)''))
   \<and> (\<not> truthy (dict_get payload ''region_ids'') \<and> \<not> truthy (dict_get payload ''geoms'')
      \<longrightarrow> union_polygons env payload = Inl (HTTPException 400 ''Provide region_ids or geoms''))
   \<and> is_client_error (HTTPException 400 msg)"
proof (intro conjI impI)
  show "is_client_error (HTTPException 400 msg)" by simp
qed (auto simp: point_in_polygon_def within_distance_def buffer_analysis_def knn_def
       intersection_def union_polygons_def Let_def)

theorem missing_field_client_error_witness:
  "point_in_polygon grid_env [(''lat'', JInt 0)] = Inl (HTTPException 400 ''lon/lat required'')
   \<and> within_distance grid_env [(''lat'', JInt 0)]
       = Inl (HTTPException 400 ''lon/lat/radius_m required'')
   \<and> buffer_analysis grid_env [(''lat'', JInt 0)]
       = Inl (HTTPException 400 ''lon/lat/buffer_m required'')
   \<and> knn grid_env [(''lat'', JInt 0)] = Inl (HTTPException 400 ''lon/lat required'')
   \<and> intersection grid_env [(''lat'', JInt 0)]
       = Inl (HTTPException 400 ''Provide a and b (GeoJSON geometry or Feature)'')
   \<and> union_polygons grid_env [(''lat'', JInt 0)]
       = Inl (HTTPException 400 ''Provide region_ids or geoms'')"
proof -
  let ?p = "[(''lat'', JInt 0)]"
  have s: "source_of ?p = Inr ''features''"
    by (simp add: source_of_def py_or_def get_defs lower_def lower_char_def)
  from missing_field_client_error [of ?p "''features''" grid_env 200 "[]"]
       missing_field_client_error [of ?p "''features''" grid_env 500 "[]"]
       missing_field_client_error [of ?p "''features''" grid_env 1000 "[]"]
       missing_field_client_error [of ?p "''features''" grid_env 10 "[]"]
       s
  show ?thesis
    by (simp add: get_defs)
qed

text \<open>
  C1 as stated fails: a within-distance body without \<open>lon\<close> whose \<open>limit\<close> is
  \<open>null\<close> raises \<open>TypeError\<close> from the coercion, and an area body without
  \<open>geojson\<close> raises the adapter's \<open>ValueError\<close>; neither is an \<open>HTTPException\<close>.
\<close>

theorem missing_field_counterexample:
  "dict_get [(''limit'', JNull)] ''lon'' = JNull
   \<and> within_distance grid_env [(''limit'', JNull)] = Inl TypeError
   \<and> \<not> is_client_error TypeError
   \<and> dict_get [] ''geojson'' = JNull
   \<and> polygon_area grid_env [] = Inl (ValueError ''geojson is required'')
   \<and> \<not> is_client_error (ValueError ''geojson is required'')"
  by (simp add: within_distance_def polygon_area_def parse_geojson_geometry_def get_defs)

section \<open>Union\<close>

text \<open>
  C2 (as amended). A union whose non-empty \<open>region_ids\<close> match no stored row fails
  with status 404; a union with neither a non-empty \<open>region_ids\<close> nor a non-empty
  \<open>geoms\<close> fails with status 400; the two errors differ.
\<close>

theorem union_errors:
  "(truthy (dict_get payload ''region_ids'')
      \<and> id_any env (dict_get payload ''region_ids'') = Some m
      \<and> (\<forall>r \<in> set (table_rows env (REGIONS_TABLE env)). \<not> m (col_id r))
      \<longrightarrow> union_polygons env payload
            = Inl (HTTPException 404 ''No geometries found for given region_ids''))
   \<and> (\<not> truthy (dict_get payload ''region_ids'') \<and> \<not> truthy (dict_get payload ''geoms'')
      \<longrightarrow> union_polygons env payload = Inl (HTTPException 400 ''Provide region_ids or geoms''))
   \<and> HTTPException 404 ''No geometries found for given region_ids''
       \<noteq> HTTPException 400 ''Provide region_ids or geoms''"
proof (intro conjI impI)
  assume a: "truthy (dict_get payload ''region_ids'')
      \<and> id_any env (dict_get payload ''region_ids'') = Some m
      \<and> (\<forall>r \<in> set (table_rows env (REGIONS_TABLE env)). \<not> m (col_id r))"
  have "set (map snd (geom_rows env (REGIONS_TABLE env))) \<subseteq> set (table_rows env (REGIONS_TABLE env))"
    by (auto simp: geom_rows_def List.map_filter_def)
  with a have "filter (\<lambda>gr. m (col_id (snd gr))) (geom_rows env (REGIONS_TABLE env)) = []"
    by (auto simp: filter_empty_conv)
  with a show "union_polygons env payload
            = Inl (HTTPException 404 ''No geometries found for given region_ids'')"
    by (simp add: union_polygons_def union_regions_query_def)
next
  assume "\<not> truthy (dict_get payload ''region_ids'') \<and> \<not> truthy (dict_get payload ''geoms'')"
  then show "union_polygons env payload = Inl (HTTPException 400 ''Provide region_ids or geoms'')"
    by (simp add: union_polygons_def)
next
  show "HTTPException 404 ''No geometries found for given region_ids''
       \<noteq> HTTPException 400 ''Provide region_ids or geoms''"
    by simp
qed

theorem union_errors_witness:
  "union_polygons grid_env [(''region_ids'', JArr [JInt 99])]
     = Inl (HTTPException 404 ''No geometries found for given region_ids'')
   \<and> union_polygons grid_env [(''geoms'', JArr [])]
     = Inl (HTTPException 400 ''Provide region_ids or geoms'')"
  using union_errors [of "[(''region_ids'', JArr [JInt 99])]" grid_env "\<lambda>i. i \<in> set [JInt 99]"]
    union_errors [of "[(''geoms'', JArr [])]" grid_env "\<lambda>i. False"]
  by (simp add: grid_defs get_defs)

text \<open>
  C2 as stated fails: an empty \<open>region_ids\<close> list is not a truth value, so the
  handler goes on to \<open>geoms\<close> and raises status 400, not 404.
\<close>

theorem union_empty_ids_counterexample:
  "union_polygons grid_env [(''region_ids'', JArr [])]
     = Inl (HTTPException 400 ''Provide region_ids or geoms'')
   \<and> union_polygons grid_env [(''region_ids'', JArr [])]
     \<noteq> Inl (HTTPException 404 ''No geometries found for given region_ids'')"
  by (simp add: union_polygons_def get_defs)

section \<open>Intersection\<close>

text \<open>
  C3 (as amended). When both inputs are supplied, parse and are accepted by the engine,
  the intersection handler does not fail. It returns the Feature whose \<open>geometry\<close> is
  null and whose \<open>area_m2\<close> is 0.0 when the engine's GeoJSON of the intersection is
  \<open>NULL\<close>; otherwise it returns the Feature whose \<open>geometry\<close> is that GeoJSON and
  whose \<open>area_m2\<close> is the area of the intersection, an empty intersection included.
\<close>

theorem intersection_result:
  assumes "dict_get payload ''a'' \<noteq> JNull" and "dict_get payload ''b'' \<noteq> JNull"
    and "parse_geojson_geometry (json_loads env) (dict_get payload ''a'') = Inr ga"
    and "parse_geojson_geometry (json_loads env) (dict_get payload ''b'') = Inr gb"
    and "st_geom_from_geojson env ga = Some a0" and "st_geom_from_geojson env gb = Some b0"
  shows "intersection env payload =
           Inr (case st_intersection env (st_set_srid env a0 4326) (st_set_srid env b0 4326) of
                  None \<Rightarrow>
                    JObj [(''type'', JStr ''Feature''), (''geometry'', JNull),
                          (''properties'', JObj [(''area_m2'', JFloat 0)])]
                | Some g \<Rightarrow>
                    if st_as_geojson env g = JNull
                    then JObj [(''type'', JStr ''Feature''), (''geometry'', JNull),
                               (''properties'', JObj [(''area_m2'', JFloat 0)])]
                    else JObj [(''type'', JStr ''Feature''), (''geometry'', st_as_geojson env g),
                               (''properties'', JObj [(''area_m2'', JFloat (st_area env g))])])"
  using assms
  by (simp add: intersection_def intersection_query_def as_geojson_def geom_4326_def
        one_geom_to_feature_def feature_def split: option.splits)

theorem intersection_result_witness:
  "intersection grid_env [(''a'', multipoint [(0, 0), (1, 0)]), (''b'', multipoint [(1, 0), (2, 0)])]
     = Inr (JObj [(''type'', JStr ''Feature''),
                  (''geometry'',
                   JObj [(''type'', JStr ''MultiPoint''),
                         (''coordinates'', JArr [JArr [JInt 1, JInt 0]])]),
                  (''properties'', JObj [(''area_m2'', JFloat 1000000)])])"
proof -
  let ?p = "[(''a'', multipoint [(0, 0), (1, 0)]), (''b'', multipoint [(1, 0), (2, 0)])]"
  have a: "dict_get ?p ''a'' = multipoint [(0, 0), (1, 0)]"
    and b: "dict_get ?p ''b'' = multipoint [(1, 0), (2, 0)]"
    by (simp_all add: get_defs)
  have na: "dict_get ?p ''a'' \<noteq> JNull" and nb: "dict_get ?p ''b'' \<noteq> JNull"
    by (simp_all add: get_defs grid_defs)
  have pa: "parse_geojson_geometry (json_loads grid_env) (dict_get ?p ''a'')
              = Inr (multipoint [(0, 0), (1, 0)])"
    and pb: "parse_geojson_geometry (json_loads grid_env) (dict_get ?p ''b'')
              = Inr (multipoint [(1, 0), (2, 0)])"
    unfolding a b by (rule grid_parse)+
  have ga: "st_geom_from_geojson grid_env (multipoint [(0, 0), (1, 0)]) = Some [(0, 0), (1, 0)]"
    and gb: "st_geom_from_geojson grid_env (multipoint [(1, 0), (2, 0)]) = Some [(1, 0), (2, 0)]"
    by (simp_all add: grid_defs get_defs)
  show ?thesis
    using intersection_result [OF na nb pa pb ga gb]
    by (simp add: grid_defs)
qed

text \<open>
  C3 as stated fails on an engine that returns an empty geometry, not \<open>NULL\<close>, for two
  geometries without a common point: the \<open>geometry\<close> of the Feature is then the
  GeoJSON of the empty geometry, which is not null.
\<close>

theorem intersection_empty_counterexample:
  "st_intersection grid_env [(0, 0)] [(1, 1)] = Some []
   \<and> st_is_empty grid_env []
   \<and> intersection grid_env [(''a'', multipoint [(0, 0)]), (''b'', multipoint [(1, 1)])]
       = Inr (JObj [(''type'', JStr ''Feature''),
                    (''geometry'',
                     JObj [(''type'', JStr ''MultiPoint''), (''coordinates'', JArr [])]),
                    (''properties'', JObj [(''area_m2'', JFloat 0)])])
   \<and> map_sum id (\<lambda>f. field f ''geometry'')
         (intersection grid_env [(''a'', multipoint [(0, 0)]), (''b'', multipoint [(1, 1)])])
       = Inr (JObj [(''type'', JStr ''MultiPoint''), (''coordinates'', JArr [])])
   \<and> JObj [(''type'', JStr ''MultiPoint''), (''coordinates'', JArr [])] \<noteq> JNull"
  by (simp add: intersection_def intersection_query_def as_geojson_def one_geom_to_feature_def
        feature_def field_def parse_geojson_geometry_def geom_4326_def grid_defs get_defs)

section \<open>Order of the distance queries\<close>

text \<open>
  C4 (as amended). The features of a within-distance result report distances in
  non-decreasing order. The features of a KNN result come from the first \<open>k\<close> rows in
  ascending order of the engine's proximity operator \<open><->\<close>, those with a null GeoJSON
  left out; each reports \<open>dist_m\<close>, the distance in metres, which the order does not
  follow.
\<close>

theorem distance_order:
  "(within_distance env payload = Inr fc \<longrightarrow>
      (\<exists>ds. map reported_dist (features_of fc) = map Some ds \<and> sorted ds))
   \<and> (knn env payload = Inr fc' \<longrightarrow>
      (\<exists>pt k grs.
          point_4326 env (dict_get payload ''lon'') (dict_get payload ''lat'') = Some pt
        \<and> py_int (int_of_str env) (dict_get_default payload ''k'' (JInt 10)) = Inr k
        \<and> grs = take (nat k) (sort_key (\<lambda>gr. knn_distance env (fst gr) pt)
                                (geom_rows env (FEATURES_TABLE env)))
        \<and> sorted (map (\<lambda>gr. knn_distance env (fst gr) pt) grs)
        \<and> features_of fc' =
            map (dist_feature env pt) (filter (\<lambda>gr. st_as_geojson env (fst gr) \<noteq> JNull) grs)))"
proof (intro conjI impI)
  assume w: "within_distance env payload = Inr fc"
  then obtain pt rad n where
    fc: "fc = rows_to_featurecollection
           (take n (map (dist_row env pt)
              (sort_key (\<lambda>gr. st_distance env (fst gr) pt)
                 (filter (\<lambda>gr. st_dwithin env (fst gr) pt rad)
                    (geom_rows env (FEATURES_TABLE env)))))) ''geom_geojson''"
    by (auto simp: within_distance_def within_distance_query_def sql_limit_def Let_def
          split: sum.splits option.splits if_splits)
  let ?xs = "sort_key (\<lambda>gr. st_distance env (fst gr) pt)
               (filter (\<lambda>gr. st_dwithin env (fst gr) pt rad) (geom_rows env (FEATURES_TABLE env)))"
  let ?grs = "filter (\<lambda>gr. st_as_geojson env (fst gr) \<noteq> JNull) (take n ?xs)"
  have "map reported_dist (features_of fc)
          = map Some (map (\<lambda>gr. st_distance env (fst gr) pt) ?grs)"
    unfolding fc features_within by (simp add: comp_def reported_dist_feature)
  moreover have "sorted (map (\<lambda>gr. st_distance env (fst gr) pt) ?grs)"
    by (rule within_rows_sorted)
  ultimately show "\<exists>ds. map reported_dist (features_of fc) = map Some ds \<and> sorted ds"
    by blast
next
  assume k: "knn env payload = Inr fc'"
  then obtain pt n where
    pt: "point_4326 env (dict_get payload ''lon'') (dict_get payload ''lat'') = Some pt"
    and n: "py_int (int_of_str env) (dict_get_default payload ''k'' (JInt 10)) = Inr n"
    and fc: "fc' = rows_to_featurecollection
           (take (nat n) (map (dist_row env pt)
              (sort_key (\<lambda>gr. knn_distance env (fst gr) pt) (geom_rows env (FEATURES_TABLE env)))
              @ map dist_row_null (null_rows env (FEATURES_TABLE env)))) ''geom_geojson''"
    by (auto simp: knn_def knn_query_def sql_limit_def Let_def
          split: sum.splits option.splits if_splits)
  let ?xs = "sort_key (\<lambda>gr. knn_distance env (fst gr) pt) (geom_rows env (FEATURES_TABLE env))"
  have "sorted (map (\<lambda>gr. knn_distance env (fst gr) pt) ?xs)"
    by (rule sorted_sort_key)
  then have "sorted (map (\<lambda>gr. knn_distance env (fst gr) pt) (take (nat n) ?xs))"
    unfolding take_map [symmetric] by (rule sorted_wrt_take)
  moreover have "features_of fc' = map (dist_feature env pt)
      (filter (\<lambda>gr. st_as_geojson env (fst gr) \<noteq> JNull) (take (nat n) ?xs))"
    unfolding fc by (rule features_knn)
  ultimately show "\<exists>pt k grs.
          point_4326 env (dict_get payload ''lon'') (dict_get payload ''lat'') = Some pt
        \<and> py_int (int_of_str env) (dict_get_default payload ''k'' (JInt 10)) = Inr k
        \<and> grs = take (nat k) (sort_key (\<lambda>gr. knn_distance env (fst gr) pt)
                                (geom_rows env (FEATURES_TABLE env)))
        \<and> sorted (map (\<lambda>gr. knn_distance env (fst gr) pt) grs)
        \<and> features_of fc' =
            map (dist_feature env pt) (filter (\<lambda>gr. st_as_geojson env (fst gr) \<noteq> JNull) grs)"
    using pt n by blast
qed

theorem distance_order_witness:
  "within_distance grid_env [(''lon'', JInt 0), (''lat'', JInt 0), (''radius_m'', JInt 5000)]
     = Inr (rows_to_featurecollection
              [dist_row grid_env [(0, 0)] ([(10, 0)], grid_row 1 ''east'' (Some [(10, 0)])),
               dist_row grid_env [(0, 0)] ([(0, 9)], grid_row 2 ''north'' (Some [(0, 9)]))]
              ''geom_geojson'')
   \<and> (\<exists>ds. [Some 560, Some 999] = map Some ds \<and> sorted (ds :: real list))
   \<and> knn grid_env [(''lon'', JInt 0), (''lat'', JInt 0), (''k'', JInt 1)]
     = Inr (rows_to_featurecollection
              [dist_row grid_env [(0, 0)] ([(0, 9)], grid_row 2 ''north'' (Some [(0, 9)]))]
              ''geom_geojson'')"
proof -
  let ?w = "[(''lon'', JInt 0), (''lat'', JInt 0), (''radius_m'', JInt 5000)]"
  let ?k = "[(''lon'', JInt 0), (''lat'', JInt 0), (''k'', JInt 1)]"
  let ?fw = "rows_to_featurecollection
              [dist_row grid_env [(0, 0)] ([(10, 0)], grid_row 1 ''east'' (Some [(10, 0)])),
               dist_row grid_env [(0, 0)] ([(0, 9)], grid_row 2 ''north'' (Some [(0, 9)]))]
              ''geom_geojson''"
  let ?fk = "rows_to_featurecollection
              [dist_row grid_env [(0, 0)] ([(0, 9)], grid_row 2 ''north'' (Some [(0, 9)]))]
              ''geom_geojson''"
  have w: "within_distance grid_env ?w = Inr ?fw"
    by (simp add: within_distance_def within_distance_query_def grid_defs get_defs eval_defs)
  have k: "knn grid_env ?k = Inr ?fk"
    by (simp add: knn_def knn_query_def grid_defs get_defs eval_defs)
  have d: "map reported_dist (features_of ?fw) = [Some 560, Some 999]"
    by (simp add: grid_defs get_defs eval_defs)
  from distance_order [of grid_env ?w ?fw] distance_order [of grid_env ?k _ ?fk] w k d
  show ?thesis
    by simp
qed

text \<open>
  C4 as stated fails for KNN: the nearer row by the proximity operator, nine thousandths
  of a degree north, reports 999 metres and comes before the row ten thousandths of a
  degree east, which reports 560.
\<close>

theorem knn_order_counterexample:
  "map_sum id (\<lambda>fc. map reported_dist (features_of fc))
     (knn grid_env [(''lon'', JInt 0), (''lat'', JInt 0)]) = Inr [Some 999, Some 560]
   \<and> \<not> sorted [999 :: real, 560]"
  by (simp add: knn_def knn_query_def grid_defs get_defs eval_defs)

section \<open>The adapter\<close>

text \<open>
  C5. \<open>parse_geojson_geometry\<close> fails, with a \<open>ValueError\<close>, exactly when the
  input is absent, is not a mapping after decoding, or lacks \<open>type\<close>. Otherwise it
  returns the \<open>geometry\<close> field of a Feature (null when absent), and any other
  mapping as it is, whatever its coordinates.
\<close>

theorem parse_geometry_contract:
  "(case parse_geojson_geometry loads x of
      Inl e \<Rightarrow> is_ValueError e \<and> invalid_geometry_input loads x
    | Inr g \<Rightarrow> \<not> invalid_geometry_input loads x
               \<and> (\<exists>obj. decoded loads x = Some obj \<and> g = geometry_of obj))"
  unfolding parse_geojson_geometry_def invalid_geometry_input_def decoded_def mapping_with_type_def
    geometry_of_def
  by (auto split: json.splits option.splits)

theorem parse_geometry_witness:
  "parse_geojson_geometry (\<lambda>s. None)
     (JObj [(''type'', JStr ''Feature''), (''geometry'', JObj [(''type'', JStr ''Point'')])])
     = Inr (JObj [(''type'', JStr ''Point'')])
   \<and> parse_geojson_geometry (\<lambda>s. None) (JObj [(''type'', JStr ''Point'')])
     = Inr (JObj [(''type'', JStr ''Point'')])
   \<and> invalid_geometry_input (\<lambda>s. None) (JObj [(''coordinates'', JArr [])])"
  using parse_geometry_contract
          [of "\<lambda>s. None" "JObj [(''type'', JStr ''Feature''),
                                  (''geometry'', JObj [(''type'', JStr ''Point'')])]"]
        parse_geometry_contract [of "\<lambda>s. None" "JObj [(''type'', JStr ''Point'')]"]
        parse_geometry_contract [of "\<lambda>s. None" "JObj [(''coordinates'', JArr [])]"]
  by (auto simp: invalid_geometry_input_def decoded_def mapping_with_type_def geometry_of_def
        dict_get_def split: sum.splits)

text \<open>
  C6. \<open>rows_to_featurecollection\<close> returns a FeatureCollection with one Feature for
  each row whose geometry column is present and not null, in the order of the rows; the
  \<open>geometry\<close> of a Feature is that column, never null, and its \<open>properties\<close> are
  the other columns of its row, unchanged.
\<close>

theorem rows_to_featurecollection_contract:
  "rows_to_featurecollection rows k =
     JObj [(''type'', JStr ''FeatureCollection''),
           (''features'',
            JArr (map (\<lambda>r. JObj [(''type'', JStr ''Feature''),
                                 (''geometry'', the_geometry k r),
                                 (''properties'', JObj (other_columns k r))])
                    (filter (has_geometry k) rows)))]
   \<and> map (\<lambda>f. field f ''geometry'') (features_of (rows_to_featurecollection rows k))
       = map (the_geometry k) (filter (has_geometry k) rows)
   \<and> map (\<lambda>f. field f ''properties'') (features_of (rows_to_featurecollection rows k))
       = map (\<lambda>r. JObj (other_columns k r)) (filter (has_geometry k) rows)
   \<and> JNull \<notin> set (map (\<lambda>f. field f ''geometry'')
                      (features_of (rows_to_featurecollection rows k)))"
proof -
  have geom: "dict_get r k = the_geometry k r" for r
    by (simp add: dict_get_def the_geometry_def)
  have keep: "(\<lambda>r. dict_get r k \<noteq> JNull) = has_geometry k"
    by (rule ext) (simp add: dict_get_def has_geometry_def split: option.split)
  have loop: "rows_loop k rows [] =
          map (\<lambda>r. JObj [(''type'', JStr ''Feature''), (''geometry'', the_geometry k r),
                          (''properties'', JObj (other_columns k r))])
            (filter (has_geometry k) rows)"
    unfolding rows_loop_acc keep by (simp add: geom other_columns_def feature_def)
  have fc: "rows_to_featurecollection rows k =
     JObj [(''type'', JStr ''FeatureCollection''),
           (''features'',
            JArr (map (\<lambda>r. JObj [(''type'', JStr ''Feature''),
                                 (''geometry'', the_geometry k r),
                                 (''properties'', JObj (other_columns k r))])
                    (filter (has_geometry k) rows)))]"
    by (simp add: rows_to_featurecollection_def loop)
  have fs: "features_of (rows_to_featurecollection rows k) =
     map (\<lambda>r. JObj [(''type'', JStr ''Feature''), (''geometry'', the_geometry k r),
                     (''properties'', JObj (other_columns k r))])
       (filter (has_geometry k) rows)"
    unfolding fc by (simp add: features_of_def field_def dict_get_def)
  have g: "map (\<lambda>f. field f ''geometry'') (features_of (rows_to_featurecollection rows k))
       = map (the_geometry k) (filter (has_geometry k) rows)"
    unfolding fs by (simp add: field_def dict_get_def comp_def)
  have p: "map (\<lambda>f. field f ''properties'') (features_of (rows_to_featurecollection rows k))
       = map (\<lambda>r. JObj (other_columns k r)) (filter (has_geometry k) rows)"
    unfolding fs by (simp add: field_def dict_get_def comp_def)
  have n: "JNull \<notin> set (map (the_geometry k) (filter (has_geometry k) rows))"
    by (auto simp: has_geometry_def the_geometry_def split: option.splits)
  from fc g p n show ?thesis
    by simp
qed

theorem rows_to_featurecollection_witness:
  "rows_to_featurecollection
     [[(''id'', JInt 1), (''geom_geojson'', JStr ''g1'')],
      [(''id'', JInt 2), (''geom_geojson'', JNull)],
      [(''id'', JInt 3)],
      [(''geom_geojson'', JStr ''g4''), (''id'', JInt 4)]] ''geom_geojson'' =
   JObj [(''type'', JStr ''FeatureCollection''),
         (''features'',
          JArr [JObj [(''type'', JStr ''Feature''), (''geometry'', JStr ''g1''),
                      (''properties'', JObj [(''id'', JInt 1)])],
                JObj [(''type'', JStr ''Feature''), (''geometry'', JStr ''g4''),
                      (''properties'', JObj [(''id'', JInt 4)])]])]"
  using rows_to_featurecollection_contract
          [of "[[(''id'', JInt 1), (''geom_geojson'', JStr ''g1'')],
                [(''id'', JInt 2), (''geom_geojson'', JNull)],
                [(''id'', JInt 3)],
                [(''geom_geojson'', JStr ''g4''), (''id'', JInt 4)]]" "''geom_geojson''"]
  by (simp add: the_geometry_def other_columns_def has_geometry_def)

section \<open>Area, perimeter and transform\<close>

text \<open>
  C7. In a successful area response \<open>area_km2\<close> is \<open>area_m2\<close> divided by
  1,000,000, and in a successful perimeter response \<open>perimeter_km\<close> is
  \<open>perimeter_m\<close> divided by 1000, whatever the division rounds to.
\<close>

theorem kilometres_derived:
  "(polygon_area env payload = Inr resp \<longrightarrow>
      (\<exists>m. field resp ''area_m2'' = JFloat m
           \<and> field resp ''area_km2'' = JFloat (float8_div env m 1000000)))
   \<and> (polygon_perimeter env payload = Inr resp' \<longrightarrow>
      (\<exists>m. field resp' ''perimeter_m'' = JFloat m
           \<and> field resp' ''perimeter_km'' = JFloat (float8_div env m 1000)))"
  by (auto simp: polygon_area_def polygon_perimeter_def area_query_def perimeter_query_def
        field_def dict_get_def split: sum.splits option.splits)

theorem kilometres_derived_witness:
  "polygon_area grid_env [(''geojson'', multipoint [(0, 0), (1, 1), (2, 2)])]
     = Inr (JObj [(''area_m2'', JFloat 3000000), (''area_km2'', JFloat 3)])
   \<and> (\<exists>m. JFloat 3000000 = JFloat m \<and> JFloat 3 = JFloat (m / 1000000))
   \<and> polygon_perimeter grid_env [(''geojson'', multipoint [(0, 0), (1, 1), (2, 2)])]
     = Inr (JObj [(''perimeter_m'', JFloat 12000), (''perimeter_km'', JFloat 12)])
   \<and> (\<exists>m. JFloat 12000 = JFloat m \<and> JFloat 12 = JFloat (m / 1000))"
proof -
  let ?p = "[(''geojson'', multipoint [(0, 0), (1, 1), (2, 2)])]"
  have a: "polygon_area grid_env ?p
             = Inr (JObj [(''area_m2'', JFloat 3000000), (''area_km2'', JFloat 3)])"
    by (simp add: polygon_area_def area_query_def parse_geojson_geometry_def geom_4326_def
          grid_defs get_defs)
  have p: "polygon_perimeter grid_env ?p
             = Inr (JObj [(''perimeter_m'', JFloat 12000), (''perimeter_km'', JFloat 12)])"
    by (simp add: polygon_perimeter_def perimeter_query_def parse_geojson_geometry_def
          geom_4326_def grid_defs get_defs)
  show ?thesis
    using kilometres_derived [of grid_env ?p
            "JObj [(''area_m2'', JFloat 3000000), (''area_km2'', JFloat 3)]"
            "JObj [(''perimeter_m'', JFloat 12000), (''perimeter_km'', JFloat 12)]"] a p
    by (simp add: field_def get_defs grid_env_def)
qed

text \<open>
  C8. A successful transform returns the Feature whose \<open>geometry\<close> is the GeoJSON
  of the parsed input set to SRID 4326, not of the transformed geometry, and whose
  \<open>properties\<close> carry \<open>to_epsg\<close>, 3857 when the body has none, and
  \<open>geom_transformed\<close>, the GeoJSON of that geometry transformed to \<open>to_epsg\<close>.
\<close>

theorem transform_keeps_geometry:
  assumes "transform env payload = Inr f"
  shows "\<exists>geom g0 n t.
           parse_geojson_geometry (json_loads env) (dict_get payload ''geojson'') = Inr geom
         \<and> st_geom_from_geojson env geom = Some g0
         \<and> py_int (int_of_str env) (dict_get_default payload ''to_epsg'' (JInt 3857)) = Inr n
         \<and> (map_of payload ''to_epsg'' = None \<longrightarrow> n = 3857)
         \<and> st_transform env (st_set_srid env g0 4326) n = Some t
         \<and> f = JObj [(''type'', JStr ''Feature''),
                      (''geometry'', st_as_geojson env (st_set_srid env g0 4326)),
                      (''properties'',
                       JObj [(''to_epsg'', JInt n),
                             (''geom_transformed'', st_as_geojson env t)])]
         \<and> field f ''geometry'' = st_as_geojson env (st_set_srid env g0 4326)
         \<and> field (field f ''properties'') ''to_epsg'' = JInt n
         \<and> field (field f ''properties'') ''geom_transformed'' = st_as_geojson env t"
  using assms
  by (auto simp: transform_def transform_query_def one_geom_to_feature_def feature_def Let_def
        geom_4326_def dict_get_default_def field_def dict_get_def
        split: sum.splits option.splits)

theorem transform_keeps_geometry_witness:
  "transform tagged_env [(''geojson'', multipoint [(1, 1), (2, 2)])]
     = Inr (JObj [(''type'', JStr ''Feature''),
                  (''geometry'',
                   JObj [(''type'', JStr ''MultiPoint''),
                         (''coordinates'', JArr [JArr [JInt 1, JInt 1], JArr [JInt 2, JInt 2]])]),
                  (''properties'',
                   JObj [(''to_epsg'', JInt 3857),
                         (''geom_transformed'',
                          JObj [(''type'', JStr ''MultiPoint''), (''crs'', JInt 3857),
                                (''coordinates'',
                                 JArr [JArr [JInt 111, JInt 222], JArr [JInt 222, JInt 444]])])])])
   \<and> st_geom_from_geojson tagged_env (multipoint [(1, 1), (2, 2)]) = Some (0, [(1, 1), (2, 2)])
   \<and> st_set_srid tagged_env (0, [(1, 1), (2, 2)]) 4326 = (4326, [(1, 1), (2, 2)])
   \<and> st_transform tagged_env (0, [(1, 1), (2, 2)]) 3857 = None
   \<and> st_transform tagged_env (4326, [(1, 1), (2, 2)]) 3857 = Some (3857, [(111, 222), (222, 444)])"
proof -
  let ?p = "[(''geojson'', multipoint [(1, 1), (2, 2)])]"
  let ?f = "JObj [(''type'', JStr ''Feature''),
                  (''geometry'',
                   JObj [(''type'', JStr ''MultiPoint''),
                         (''coordinates'', JArr [JArr [JInt 1, JInt 1], JArr [JInt 2, JInt 2]])]),
                  (''properties'',
                   JObj [(''to_epsg'', JInt 3857),
                         (''geom_transformed'',
                          JObj [(''type'', JStr ''MultiPoint''), (''crs'', JInt 3857),
                                (''coordinates'',
                                 JArr [JArr [JInt 111, JInt 222], JArr [JInt 222, JInt 444]])])])]"
  have t: "transform tagged_env ?p = Inr ?f"
    by (simp add: transform_def transform_query_def parse_geojson_geometry_def geom_4326_def
          one_geom_to_feature_def feature_def tagged_defs grid_defs get_defs)
  have e: "st_geom_from_geojson tagged_env (multipoint [(1, 1), (2, 2)]) = Some (0, [(1, 1), (2, 2)])"
    "st_set_srid tagged_env (0, [(1, 1), (2, 2)]) 4326 = (4326, [(1, 1), (2, 2)])"
    "st_transform tagged_env (0, [(1, 1), (2, 2)]) 3857 = None"
    "st_transform tagged_env (4326, [(1, 1), (2, 2)]) 3857 = Some (3857, [(111, 222), (222, 444)])"
    by (simp_all add: tagged_defs grid_defs get_defs)
  from transform_keeps_geometry [OF t] t e show ?thesis
    by simp
qed

section \<open>Optional parameters\<close>




text \<open>
  C10 (as amended). \<open>k\<close> and, where \<open>source\<close> lowers without error, \<open>limit\<close>
  are coerced before \<open>lon\<close> and \<open>lat\<close> are looked at: a value that \<open>int\<close>
  rejects makes the handler raise that error, which is not a client error, whatever the
  body holds besides; a float is truncated toward zero, and the handler behaves as on the
  truncated integer.
\<close>

theorem coercion_before_presence_check:
  "(py_int (int_of_str env) (dict_get_default payload ''k'' (JInt 10)) = Inl e
      \<longrightarrow> knn env payload = Inl e \<and> \<not> is_client_error e)
   \<and> (source_of payload = Inr s
      \<and> py_int (int_of_str env) (dict_get_default payload ''limit'' (JInt 200)) = Inl e
      \<longrightarrow> point_in_polygon env payload = Inl e \<and> \<not> is_client_error e)
   \<and> py_int (int_of_str env) (JFloat r) = Inr (trunc r)
   \<and> \<bar>real_of_int (trunc r)\<bar> \<le> \<bar>r\<bar> \<and> \<bar>r - real_of_int (trunc r)\<bar> < 1
   \<and> point_in_polygon env ((''limit'', JFloat r) # payload)
       = point_in_polygon env ((''limit'', JInt (trunc r)) # payload)
   \<and> knn env ((''k'', JFloat r) # payload) = knn env ((''k'', JInt (trunc r)) # payload)"
proof (intro conjI impI)
  assume k: "py_int (int_of_str env) (dict_get_default payload ''k'' (JInt 10)) = Inl e"
  then show "knn env payload = Inl e"
    by (simp add: knn_def)
  from k show "\<not> is_client_error e"
    by (rule py_int_error)
next
  assume l: "source_of payload = Inr s
      \<and> py_int (int_of_str env) (dict_get_default payload ''limit'' (JInt 200)) = Inl e"
  then show "point_in_polygon env payload = Inl e"
    by (simp add: point_in_polygon_def)
  from l show "\<not> is_client_error e"
    by (blast dest: py_int_error)
next
  show "py_int (int_of_str env) (JFloat r) = Inr (trunc r)"
    by simp
  show "\<bar>real_of_int (trunc r)\<bar> \<le> \<bar>r\<bar>" and "\<bar>r - real_of_int (trunc r)\<bar> < 1"
    using trunc_toward_zero [of r] by simp_all
  show "point_in_polygon env ((''limit'', JFloat r) # payload)
       = point_in_polygon env ((''limit'', JInt (trunc r)) # payload)"
    unfolding point_in_polygon_def limit_float
    by (simp add: other_key source_other_key)
  show "knn env ((''k'', JFloat r) # payload) = knn env ((''k'', JInt (trunc r)) # payload)"
    unfolding knn_def limit_float
    by (simp add: other_key)
qed

theorem coercion_before_presence_check_witness:
  "knn grid_env [(''k'', JStr ''ten'')] = Inl (ValueError ''invalid literal for int()'')
   \<and> point_in_polygon grid_env [(''limit'', JNull)] = Inl TypeError
   \<and> py_int (int_of_str grid_env) (JFloat (- 27 / 10)) = Inr (- 2)
   \<and> py_int (int_of_str grid_env) (JFloat (27 / 10)) = Inr 2"
proof -
  have s: "source_of [(''limit'', JNull)] = Inr ''features''"
    by (simp add: source_of_def py_or_def get_defs lower_features)
  have t: "trunc (- 27 / 10) = - 2" "trunc (27 / 10) = 2"
    by (simp_all add: trunc_def)
  from coercion_before_presence_check
         [of grid_env "[(''k'', JStr ''ten'')]" "ValueError ''invalid literal for int()''"]
       coercion_before_presence_check
         [of grid_env "[(''limit'', JNull)]" TypeError "''features''" "- 27 / 10"]
       coercion_before_presence_check [of grid_env "[]" _ _ "27 / 10"]
       s t
  show ?thesis
    by (simp add: get_defs grid_env_def)
qed

text \<open>
  C10 as stated fails for point-in-polygon: with the source \<open>5\<close> the handler raises
  \<open>AttributeError\<close> before \<open>limit\<close> is coerced, so a \<open>limit\<close> that \<open>int\<close>
  rejects raises no conversion error.
\<close>

theorem coercion_counterexample:
  "py_int (int_of_str grid_env)
     (dict_get_default [(''source'', JInt 5), (''limit'', JNull)] ''limit'' (JInt 200))
     = Inl TypeError
   \<and> point_in_polygon grid_env [(''source'', JInt 5), (''limit'', JNull)] = Inl AttributeError"
  by (simp add: point_in_polygon_def source_of_def py_or_def get_defs)

end
